theory Spec2Isabelle
  imports Main "HOL-Library.Sublist"
begin

section \<open>Python strings and the library behaviour the script relies on\<close>

text \<open>
  A Python \<open>str\<close> is a sequence of Unicode code points, so a string is a list of
  natural numbers here; \<open>asc\<close> writes the ASCII literals of the script.  The glyphs of
  the script are written with their code points (for example U+1F41B for the bug glyph).
\<close>

type_synonym cp = nat
type_synonym str = "cp list"

definition asc :: "string \<Rightarrow> str" where
  "asc s = map of_char s"

text \<open>
  What the script takes from libraries (the Unicode database behind \<open>str\<close> and \<open>re\<close>, the
  \<open>emoji\<close> package, \<open>hashlib\<close>, \<open>datetime\<close>) is fixed on ASCII by the definitions below and is
  a parameter beyond ASCII: a \<open>platform\<close> record holds those tables.
\<close>

record platform =
  uc_space :: "cp \<Rightarrow> bool"            \<comment> \<open>\<open>Py_UNICODE_ISSPACE\<close> beyond ASCII\<close>
  uc_alnum :: "cp \<Rightarrow> bool"            \<comment> \<open>\<open>Py_UNICODE_ISALNUM\<close> beyond ASCII\<close>
  uc_digit :: "cp \<Rightarrow> nat option"      \<comment> \<open>decimal digit value beyond ASCII\<close>
  uc_isupper :: "cp \<Rightarrow> bool"          \<comment> \<open>\<open>str.isupper\<close> of a one-character string beyond ASCII\<close>
  uc_upper :: "cp \<Rightarrow> str"             \<comment> \<open>\<open>str.upper\<close> of a one-character string beyond ASCII\<close>
  uc_lower :: "str \<Rightarrow> str"            \<comment> \<open>\<open>str.lower\<close> of a string that is not pure ASCII\<close>
  uc_ieq :: "cp \<Rightarrow> cp \<Rightarrow> bool"        \<comment> \<open>\<open>re.IGNORECASE\<close> equality of a letter and a character, one not ASCII\<close>
  emoji_list :: "str \<Rightarrow> (nat \<times> nat \<times> str) list"
     \<comment> \<open>\<open>emoji.emoji_list\<close>: (match_start, match_end, emoji) of every glyph found\<close>
  md5_hexdigest :: "str \<Rightarrow> str"      \<comment> \<open>\<open>hashlib.md5(s.encode()).hexdigest()\<close>\<close>
  datetime_str :: "int \<Rightarrow> str"       \<comment> \<open>\<open>str\<close> of the UTC datetime of a timestamp\<close>
  pad_year :: bool                   \<comment> \<open>whether \<open>strftime('%Y')\<close> zero-pads years below 1000\<close>

definition is_ascii :: "cp \<Rightarrow> bool" where
  "is_ascii c = (c < 128)"

definition ascii_upper_letter :: "cp \<Rightarrow> bool" where
  "ascii_upper_letter c = (65 \<le> c \<and> c \<le> 90)"

definition ascii_lower_letter :: "cp \<Rightarrow> bool" where
  "ascii_lower_letter c = (97 \<le> c \<and> c \<le> 122)"

definition ascii_digit :: "cp \<Rightarrow> bool" where
  "ascii_digit c = (48 \<le> c \<and> c \<le> 57)"

definition ascii_tolower :: "cp \<Rightarrow> cp" where
  "ascii_tolower c = (if ascii_upper_letter c then c + 32 else c)"

definition ascii_toupper :: "cp \<Rightarrow> cp" where
  "ascii_toupper c = (if ascii_lower_letter c then c - 32 else c)"

definition py_isspace :: "platform \<Rightarrow> cp \<Rightarrow> bool" where
  \<comment> \<open>tab, newline, vertical tab, form feed, carriage return, U+001C..U+001F, space\<close>
  "py_isspace P c =
     (if is_ascii c then (9 \<le> c \<and> c \<le> 13) \<or> (28 \<le> c \<and> c \<le> 32) else uc_space P c)"

definition py_isword :: "platform \<Rightarrow> cp \<Rightarrow> bool" where
  \<comment> \<open>the class \<open>\w\<close>: alphanumeric or underscore\<close>
  "py_isword P c =
     (if is_ascii c
      then ascii_upper_letter c \<or> ascii_lower_letter c \<or> ascii_digit c \<or> c = 95
      else uc_alnum P c)"

definition py_isdigit :: "platform \<Rightarrow> cp \<Rightarrow> bool" where
  \<comment> \<open>the class \<open>\d\<close>\<close>
  "py_isdigit P c = (if is_ascii c then ascii_digit c else uc_digit P c \<noteq> None)"

definition digit_value :: "platform \<Rightarrow> cp \<Rightarrow> nat" where
  "digit_value P c = (if is_ascii c then c - 48 else (case uc_digit P c of Some d \<Rightarrow> d | None \<Rightarrow> 0))"

definition py_isupper :: "platform \<Rightarrow> cp \<Rightarrow> bool" where
  "py_isupper P c = (if is_ascii c then ascii_upper_letter c else uc_isupper P c)"

definition py_upper1 :: "platform \<Rightarrow> cp \<Rightarrow> str" where
  "py_upper1 P c = (if is_ascii c then [ascii_toupper c] else uc_upper P c)"

definition py_lower :: "platform \<Rightarrow> str \<Rightarrow> str" where
  "py_lower P s = (if list_all is_ascii s then map ascii_tolower s else uc_lower P s)"

definition py_emoji_list :: "platform \<Rightarrow> str \<Rightarrow> (nat \<times> nat \<times> str) list" where
  \<comment> \<open>no glyph of the emoji table is pure ASCII\<close>
  "py_emoji_list P s = (if list_all is_ascii s then [] else emoji_list P s)"

definition chr_eq :: "platform \<Rightarrow> bool \<Rightarrow> cp \<Rightarrow> cp \<Rightarrow> bool" where
  \<comment> \<open>a literal \<open>c\<close> of a pattern against a character \<open>x\<close>; \<open>ic\<close> is \<open>re.IGNORECASE\<close>\<close>
  "chr_eq P ic c x =
     (if ic then (if is_ascii c \<and> is_ascii x then ascii_tolower c = ascii_tolower x
                  else if is_ascii c \<and> \<not> ascii_upper_letter c \<and> \<not> ascii_lower_letter c
                  then False
                  else c = x \<or> uc_ieq P c x)
      else c = x)"

definition lstrip :: "platform \<Rightarrow> str \<Rightarrow> str" where
  "lstrip P s = dropWhile (py_isspace P) s"

definition rstrip :: "platform \<Rightarrow> str \<Rightarrow> str" where
  "rstrip P s = rev (dropWhile (py_isspace P) (rev s))"

definition strip :: "platform \<Rightarrow> str \<Rightarrow> str" where
  "strip P s = rstrip P (lstrip P s)"

fun split_on :: "cp \<Rightarrow> str \<Rightarrow> str list" where
  \<comment> \<open>\<open>s.split(c)\<close> for a one-character separator\<close>
  "split_on c [] = [[]]"
| "split_on c (x # xs) =
     (if x = c then [] # split_on c xs
      else (case split_on c xs of l # ls \<Rightarrow> (x # l) # ls | [] \<Rightarrow> [[x]]))"

fun join_with :: "cp \<Rightarrow> str list \<Rightarrow> str" where
  \<comment> \<open>\<open>c.join(ls)\<close>\<close>
  "join_with c [] = []"
| "join_with c [l] = l"
| "join_with c (l # ls) = l @ c # join_with c ls"

fun find_sub :: "str \<Rightarrow> str \<Rightarrow> nat option" where
  \<comment> \<open>\<open>s.find(sub)\<close>: the index of the first occurrence, \<open>None\<close> for -1\<close>
  "find_sub sub [] = (if sub = [] then Some 0 else None)"
| "find_sub sub (x # xs) =
     (if prefix sub (x # xs) then Some 0 else map_option Suc (find_sub sub xs))"

abbreviation newline :: cp where "newline \<equiv> 10"

section \<open>Regular expressions\<close>

text \<open>
  The patterns of the script as syntax trees, and a backtracking matcher in the order Python's
  \<open>re\<close> tries alternatives: the results of \<open>rmatch\<close> are all the ways to match at a position,
  the preferred one first.  A matcher state is the consumed text (reversed), the remaining
  text and the groups captured so far.
\<close>

datatype regex =
    Eps
  | Lit cp                \<comment> \<open>a literal character\<close>
  | Dot                   \<comment> \<open>\<open>.\<close>: anything but a newline\<close>
  | Word                  \<comment> \<open>\<open>\w\<close>\<close>
  | Digit                 \<comment> \<open>\<open>\d\<close>\<close>
  | Space                 \<comment> \<open>\<open>\s\<close>\<close>
  | Range cp cp           \<comment> \<open>\<open>[a-z]\<close>\<close>
  | NotCh cp              \<comment> \<open>\<open>[^c]\<close>\<close>
  | Bol                   \<comment> \<open>\<open>^\<close>\<close>
  | Eol                   \<comment> \<open>\<open>$\<close>\<close>
  | Wordb                 \<comment> \<open>\<open>\b\<close>\<close>
  | Seq regex regex
  | Alt regex regex
  | Star regex            \<comment> \<open>greedy \<open>r*\<close>\<close>
  | Lazy regex            \<comment> \<open>lazy \<open>r*?\<close>\<close>
  | Grp nat regex         \<comment> \<open>capturing group number n\<close>

type_synonym mstate = "str \<times> str \<times> (nat \<times> str) list"

definition one :: "(cp \<Rightarrow> bool) \<Rightarrow> mstate \<Rightarrow> mstate list" where
  "one p st = (case st of (pre, x # xs, g) \<Rightarrow> if p x then [(x # pre, xs, g)] else []
                        | (pre, [], g) \<Rightarrow> [])"

definition at_boundary :: "platform \<Rightarrow> str \<Rightarrow> str \<Rightarrow> bool" where
  "at_boundary P pre rest =
     ((case pre of [] \<Rightarrow> False | a # _ \<Rightarrow> py_isword P a)
        \<noteq> (case rest of [] \<Rightarrow> False | b # _ \<Rightarrow> py_isword P b))"

definition advances :: "mstate \<Rightarrow> mstate \<Rightarrow> bool" where
  "advances st st' = (length (fst (snd st')) < length (fst (snd st)))"

primrec star_iter :: "(mstate \<Rightarrow> mstate list) \<Rightarrow> nat \<Rightarrow> mstate \<Rightarrow> mstate list" where
  "star_iter f 0 st = [st]"
| "star_iter f (Suc n) st =
     concat (map (star_iter f n) (filter (advances st) (f st))) @ [st]"

primrec lazy_iter :: "(mstate \<Rightarrow> mstate list) \<Rightarrow> nat \<Rightarrow> mstate \<Rightarrow> mstate list" where
  "lazy_iter f 0 st = [st]"
| "lazy_iter f (Suc n) st =
     st # concat (map (lazy_iter f n) (filter (advances st) (f st)))"

definition capture :: "nat \<Rightarrow> mstate \<Rightarrow> mstate \<Rightarrow> mstate" where
  "capture n st st' =
     (case st' of (pre', rest', g') \<Rightarrow>
        (pre', rest', (n, rev (take (length pre' - length (fst st)) pre')) # g'))"

primrec rmatch :: "platform \<Rightarrow> bool \<Rightarrow> regex \<Rightarrow> mstate \<Rightarrow> mstate list" where
  "rmatch P ic Eps st = [st]"
| "rmatch P ic (Lit c) st = one (chr_eq P ic c) st"
| "rmatch P ic Dot st = one (\<lambda>x. x \<noteq> newline) st"
| "rmatch P ic Word st = one (py_isword P) st"
| "rmatch P ic Digit st = one (py_isdigit P) st"
| "rmatch P ic Space st = one (py_isspace P) st"
| "rmatch P ic (Range a b) st = one (\<lambda>x. a \<le> x \<and> x \<le> b) st"
| "rmatch P ic (NotCh c) st = one (\<lambda>x. x \<noteq> c) st"
| "rmatch P ic Bol st = (if fst st = [] then [st] else [])"
| "rmatch P ic Eol st = (if fst (snd st) = [] \<or> fst (snd st) = [newline] then [st] else [])"
| "rmatch P ic Wordb st = (if at_boundary P (fst st) (fst (snd st)) then [st] else [])"
| "rmatch P ic (Seq r1 r2) st = concat (map (rmatch P ic r2) (rmatch P ic r1 st))"
| "rmatch P ic (Alt r1 r2) st = rmatch P ic r1 st @ rmatch P ic r2 st"
| "rmatch P ic (Star r) st = star_iter (rmatch P ic r) (length (fst (snd st))) st"
| "rmatch P ic (Lazy r) st = lazy_iter (rmatch P ic r) (length (fst (snd st))) st"
| "rmatch P ic (Grp n r) st = map (capture n st) (rmatch P ic r st)"

definition Plus :: "regex \<Rightarrow> regex" where
  \<comment> \<open>greedy \<open>r+\<close>\<close>
  "Plus r = Seq r (Star r)"

definition Opt :: "regex \<Rightarrow> regex" where
  \<comment> \<open>greedy \<open>r?\<close>\<close>
  "Opt r = Alt r Eps"

fun seqs :: "regex list \<Rightarrow> regex" where
  "seqs [] = Eps"
| "seqs [r] = r"
| "seqs (r # rs) = Seq r (seqs rs)"

fun alts :: "regex list \<Rightarrow> regex" where
  "alts [] = Eps"
| "alts [r] = r"
| "alts (r # rs) = Alt r (alts rs)"

definition lits :: "str \<Rightarrow> regex" where
  \<comment> \<open>a run of literal characters\<close>
  "lits s = seqs (map Lit s)"

definition lit :: "string \<Rightarrow> regex" where
  "lit s = lits (asc s)"

text \<open>
  \<open>re.search\<close> tries every start position from the left and returns the preferred match at
  the first position that has one: the text before the match (reversed) and the final state.
\<close>

fun search_from :: "platform \<Rightarrow> bool \<Rightarrow> regex \<Rightarrow> str \<Rightarrow> str \<Rightarrow> (str \<times> mstate) option" where
  "search_from P ic r pre [] =
     (case rmatch P ic r (pre, [], []) of m # _ \<Rightarrow> Some (pre, m) | [] \<Rightarrow> None)"
| "search_from P ic r pre (x # xs) =
     (case rmatch P ic r (pre, x # xs, []) of m # _ \<Rightarrow> Some (pre, m)
      | [] \<Rightarrow> search_from P ic r (x # pre) xs)"

definition re_search :: "platform \<Rightarrow> bool \<Rightarrow> regex \<Rightarrow> str \<Rightarrow> (str \<times> mstate) option" where
  "re_search P ic r s = search_from P ic r [] s"

definition re_found :: "platform \<Rightarrow> bool \<Rightarrow> regex \<Rightarrow> str \<Rightarrow> bool" where
  \<comment> \<open>the truth value of \<open>re.search(r, s)\<close>\<close>
  "re_found P ic r s = (re_search P ic r s \<noteq> None)"

definition re_match :: "platform \<Rightarrow> bool \<Rightarrow> regex \<Rightarrow> str \<Rightarrow> mstate option" where
  \<comment> \<open>\<open>re.match\<close>: a match at the start only\<close>
  "re_match P ic r s = (case rmatch P ic r ([], s, []) of m # _ \<Rightarrow> Some m | [] \<Rightarrow> None)"

definition group :: "mstate \<Rightarrow> nat \<Rightarrow> str option" where
  "group m n = map_of (snd (snd m)) n"

definition re_sub1 :: "platform \<Rightarrow> bool \<Rightarrow> regex \<Rightarrow> str \<Rightarrow> str \<Rightarrow> str" where
  \<comment> \<open>\<open>re.sub(r, repl, s, count=1)\<close> for a replacement without backslashes\<close>
  "re_sub1 P ic r repl s =
     (case re_search P ic r s of None \<Rightarrow> s
      | Some (pre, (pre', rest', g)) \<Rightarrow> rev pre @ repl @ rest')"

fun re_sub :: "platform \<Rightarrow> bool \<Rightarrow> regex \<Rightarrow> str \<Rightarrow> str \<Rightarrow> str \<Rightarrow> str" where
  \<comment> \<open>\<open>re.sub(r, repl, s)\<close> for a replacement without backslashes, scanning from left to right;
      \<open>pre\<close> is the text already passed (reversed)\<close>
  "re_sub P ic r repl pre [] =
     (case rmatch P ic r (pre, [], []) of m # _ \<Rightarrow> repl | [] \<Rightarrow> [])"
| "re_sub P ic r repl pre (x # xs) =
     (case rmatch P ic r (pre, x # xs, []) of
        [] \<Rightarrow> x # re_sub P ic r repl (x # pre) xs
      | (pre', rest', g) # _ \<Rightarrow>
          (if length rest' < length (x # xs)
           then repl @ re_sub P ic r repl pre' rest'
           else repl @ x # re_sub P ic r repl (x # pre) xs))"

section \<open>The tables of the script\<close>

record category_rule =
  name :: str
  priority :: nat
  patterns :: "regex list"
  file_patterns :: "regex list"

definition CATEGORIES :: "(str \<times> category_rule) list" where
  \<comment> \<open>the dictionary \<open>CATEGORIES\<close>, in its declared (iteration) order\<close>
  "CATEGORIES = [
     (asc ''security_critical'', \<lparr>
        name = 0x1F512 # asc '' Security & Critical Fixes'', priority = 1,
        patterns = [
          alts [lit ''security'', lit ''cve'', lit ''vulnerability'', lit ''exploit'', lit ''auth'',
                lit ''crypto'', lit ''ssl'', lit ''tls'', lit ''certificate''],
          alts [lit ''critical'', lit ''emergency'', lit ''hotfix'', lit ''urgent'']],
        file_patterns = [lit ''security/'', lit ''auth/'', lit ''crypto/'']\<rparr>),
     (asc ''features'', \<lparr>
        name = 0x2728 # asc '' New Features'', priority = 2,
        patterns = [
          alts [Seq Bol (lit ''feat:''), Seq Bol (lit ''feature:''),
                seqs [lit ''add'', Star Dot, lit ''feature''],
                seqs [lit ''new'', Star Dot, lit ''feature''], lit ''implement''],
          alts [lit ''introduce'', seqs [lit ''create'', Star Dot, lit ''new'']]],
        file_patterns = []\<rparr>),
     (asc ''improvements'', \<lparr>
        name = 0x1F31F # asc '' Improvements & Enhancements'', priority = 3,
        patterns = [
          alts [lit ''improve'', lit ''enhance'', lit ''optimize'', lit ''refactor'',
                seqs [lit ''update'', Star Dot, lit ''logic''], lit ''better''],
          alts [lit ''performance'', lit ''speed'', lit ''faster'']],
        file_patterns = []\<rparr>),
     (asc ''bugfixes'', \<lparr>
        name = 0x1F41B # asc '' Bug Fixes'', priority = 4,
        patterns = [
          alts [lit ''fix:'', lit ''bug:'', lit ''resolve'', lit ''correct'', lit ''repair'',
                lit ''patch''],
          alts [seqs [lit ''issue'', Star Dot, lit ''#'', Plus Digit],
                seqs [lit ''fixes'', Star Dot, lit ''#'', Plus Digit]]],
        file_patterns = []\<rparr>),
     (asc ''bananawrt_core'', \<lparr>
        name = 0x1F34C # asc '' BananaWRT Core'', priority = 5,
        patterns = [
          alts [lit ''kernel'', lit ''dts'', lit ''openwrt'', lit ''firmware'', lit ''bootloader'',
                lit ''uboot'']],
        file_patterns = [lit ''target/'', lit ''kernel/'', lit ''.dts'', lit ''.dtsi'',
                         lit ''config/Config-kernel'']\<rparr>),
     (asc ''packages'', \<lparr>
        name = 0x1F4E6 # asc '' Packages & Applications'', priority = 6,
        patterns = [
          alts [lit ''luci-app-'', lit ''package:'',
                seqs [Bol, Grp 1 (Plus Word), lit '':'', Star Space,
                      Grp 2 (alts [lit ''add'', lit ''update'', lit ''fix'', lit ''bump''])]],
          alts [lit ''banana-utils'', lit ''linkup-optimization'', lit ''modemband'',
                lit ''sms-tool'']],
        file_patterns = [lit ''package/'', lit ''feeds/'', lit ''luci/'']\<rparr>),
     (asc ''build_ci'', \<lparr>
        name = 0x1F504 # asc '' Build System & CI'', priority = 7,
        patterns = [
          alts [lit ''workflow'', seqs [lit ''github'', Star Dot, lit ''action''], lit ''ci:'',
                lit ''cd:'', lit ''build:'', lit ''cmake'', lit ''makefile'']],
        file_patterns = [lit ''.github/'', Seq (lit ''.yml'') Eol, Seq (lit ''.yaml'') Eol,
                         lit ''Makefile'', lit ''CMakeLists.txt'']\<rparr>),
     (asc ''documentation'', \<lparr>
        name = 0x1F4DD # asc '' Documentation'', priority = 8,
        patterns = [
          alts [Seq Bol (lit ''docs:''), lit ''documentation'', lit ''readme'', lit ''changelog'',
                lit ''wiki'']],
        file_patterns = [lit ''README'', lit ''CHANGELOG'', Seq (lit ''.md'') Eol,
                         lit ''docs/'']\<rparr>),
     (asc ''other'', \<lparr>
        name = [0x1F6E0, 0xFE0F] @ asc '' Other Changes'', priority = 99,
        patterns = [], file_patterns = []\<rparr>)]"

definition EMOJI_MAP :: "(str \<times> str) list" where
  \<comment> \<open>the dictionary \<open>EMOJI_MAP\<close>, in its declared order\<close>
  "EMOJI_MAP = [
     (asc ''fix'', [0x1F41B]), (asc ''bug'', [0x1F41B]), (asc ''hotfix'', [0x1F691]),
     (asc ''security'', [0x1F512]), (asc ''breaking'', [0x1F4A5]), (asc ''feature'', [0x2728]),
     (asc ''feat'', [0x2728]), (asc ''add'', [0x2795]), (asc ''new'', [0x1F195]),
     (asc ''improve'', [0x1F31F]), (asc ''enhance'', [0x1F31F]), (asc ''optimize'', [0x26A1]),
     (asc ''perf'', [0x26A1]), (asc ''refactor'', [0x267B, 0xFE0F]), (asc ''update'', [0x1F504]),
     (asc ''upgrade'', [0x1F53C]), (asc ''bump'', [0x1F53C]), (asc ''deps'', [0x1F4E6]),
     (asc ''docs'', [0x1F4DD]), (asc ''doc'', [0x1F4DD]), (asc ''test'', [0x1F9EA]),
     (asc ''build'', [0x1F3D7, 0xFE0F]), (asc ''ci'', [0x1F504]), (asc ''workflow'', [0x1F504]),
     (asc ''style'', [0x1F3A8]), (asc ''chore'', [0x1F9F9]), (asc ''cleanup'', [0x1F9F9]),
     (asc ''revert'', [0x23EA]), (asc ''remove'', [0x1F5D1, 0xFE0F]), (asc ''config'', [0x2699, 0xFE0F]),
     (asc ''ui'', [0x1F485]), (asc ''translation'', [0x1F310]), (asc ''i18n'', [0x1F310]),
     (asc ''network'', [0x1F50C]), (asc ''core'', [0x1F34C]), (asc ''package'', [0x1F4E6]),
     (asc ''misc'', [0x1F6E0, 0xFE0F])]"

record filter_config =
  exclude_merge_commits :: bool
  exclude_patterns :: "regex list"
  include_workflow_commits :: bool

definition FILTER_CONFIG :: filter_config where
  \<comment> \<open>the defaults, before \<open>load_config\<close> updates them from the optional JSON file\<close>
  "FILTER_CONFIG = \<lparr>
     exclude_merge_commits = True,
     exclude_patterns = [
       seqs [Bol, lit ''typo:'', Star Space, lit ''fix''],
       seqs [Bol, lit ''docs:'', Star Space, lit ''update readme only''],
       alts [seqs [Bol, lit ''style:'', Star Space, lit ''whitespace''], lit ''spacing'',
             lit ''indent'']],
     include_workflow_commits = True\<rparr>"

section \<open>Commits\<close>

record commit =
  hexsha :: str
  message :: str
  author_name :: str
  committer_name :: str
  committed_date :: int       \<comment> \<open>seconds since the epoch\<close>
  parents :: nat              \<comment> \<open>the number of parents\<close>
  changed_files :: "str list" \<comment> \<open>what \<open>get_commit_files\<close> returns: the paths of the diff against
                                  the first parent, or nothing when the diff fails\<close>

record commit_data =
  cd_sha :: str
  cd_message :: str
  cd_author :: str
  cd_date :: int
  cd_files :: "str list"
  cd_formatted :: str
  cd_category :: str
  cd_repo :: str

subsection \<open>should_skip_commit\<close>

definition should_skip_commit :: "platform \<Rightarrow> filter_config \<Rightarrow> commit \<Rightarrow> bool" where
  "should_skip_commit P cfg c =
     (let message_lower = py_lower P (message c) in
      if exclude_merge_commits cfg \<and> parents c > 1 then True
      else if list_ex (\<lambda>pattern. re_found P True pattern (message c)) (exclude_patterns cfg)
      then True
      else if \<not> include_workflow_commits cfg \<and> sublist (asc ''workflow'') message_lower
      then True
      else False)"

subsection \<open>get_emoji_for_commit\<close>

definition starts_with_emoji :: "platform \<Rightarrow> str \<Rightarrow> (nat \<times> nat \<times> str) option" where
  \<comment> \<open>\<open>found_emojis and found_emojis[0]['match_start'] == 0\<close>\<close>
  "starts_with_emoji P s =
     (case py_emoji_list P s of [] \<Rightarrow> None
      | e # _ \<Rightarrow> if fst e = 0 then Some e else None)"

definition keyword_pattern :: "str \<Rightarrow> regex" where
  \<comment> \<open>\<open>r'\b' + keyword + r'\b'\<close>; the keywords are letters and digits\<close>
  "keyword_pattern keyword = seqs [Wordb, lits keyword, Wordb]"

definition get_emoji_for_commit :: "platform \<Rightarrow> str \<Rightarrow> str" where
  "get_emoji_for_commit P commit_msg =
     (case starts_with_emoji P commit_msg of
        Some (start, end, e) \<Rightarrow> e
      | None \<Rightarrow>
          (let commit_msg_lower = py_lower P commit_msg in
           case find (\<lambda>(keyword, emoji_code).
                        re_found P False (keyword_pattern keyword) commit_msg_lower) EMOJI_MAP of
             Some (keyword, emoji_code) \<Rightarrow> emoji_code
           | None \<Rightarrow> [0x1F6E0, 0xFE0F]))"

subsection \<open>extract_package_name\<close>

definition package_patterns :: "regex list" where
  "package_patterns = [
     seqs [Lit 96, Grp 1 (Plus (NotCh 96)), Lit 96],
     seqs [Bol, Grp 1 (Seq (Plus Word) (Star (Seq (lit ''-'') (Plus Word)))), lit '':''],
     seqs [Wordb, Grp 1 (Seq (lit ''luci-app-'') (Plus Word)), Wordb],
     seqs [Wordb, Grp 1 (alts [lit ''banana-utils'', lit ''linkup-optimization'',
                               lit ''modemband'', lit ''sms-tool'']), Wordb]]"

fun first_group :: "platform \<Rightarrow> regex list \<Rightarrow> str \<Rightarrow> str option" where
  "first_group P [] msg = None"
| "first_group P (pattern # rest) msg =
     (case re_search P True pattern msg of
        Some (pre, m) \<Rightarrow> group m 1
      | None \<Rightarrow> first_group P rest msg)"

definition extract_package_name :: "platform \<Rightarrow> str \<Rightarrow> str option" where
  "extract_package_name P msg = first_group P package_patterns msg"

subsection \<open>format_commit_message\<close>

definition strip_leading_emoji :: "platform \<Rightarrow> str \<Rightarrow> str" where
  "strip_leading_emoji P msg =
     (case starts_with_emoji P msg of
        Some (start, end, e) \<Rightarrow> strip P (drop end msg)
      | None \<Rightarrow> msg)"

definition conventional_prefix :: regex where
  \<comment> \<open>\<open>r'^[a-z]+:'\<close>\<close>
  "conventional_prefix = seqs [Bol, Plus (Range 97 122), lit '':'']"

definition capitalize_step :: "platform \<Rightarrow> str \<Rightarrow> str" where
  "capitalize_step P msg =
     (case msg of [] \<Rightarrow> []
      | c # cs \<Rightarrow>
          if \<not> py_isupper P c \<and> re_match P False conventional_prefix msg = None
          then py_upper1 P c @ cs else msg)"

definition quote_package_step :: "platform \<Rightarrow> str option \<Rightarrow> str \<Rightarrow> str" where
  "quote_package_step P package_name msg =
     (case package_name of None \<Rightarrow> msg
      | Some pkg \<Rightarrow>
          if pkg \<noteq> [] \<and> 96 \<notin> set msg
          then re_sub1 P True (seqs [Wordb, lits pkg, Wordb]) ([96] @ pkg @ [96]) msg
          else msg)"

definition issue_pattern :: regex where
  \<comment> \<open>\<open>r'(?:fixes?|closes?|resolves?)\s*#(\d+)'\<close>\<close>
  "issue_pattern =
     seqs [alts [Seq (lit ''fixe'') (Opt (lit ''s'')), Seq (lit ''close'') (Opt (lit ''s'')),
                 Seq (lit ''resolve'') (Opt (lit ''s''))],
           Star Space, lit ''#'', Grp 1 (Plus Digit)]"

definition issue_step :: "platform \<Rightarrow> str \<Rightarrow> str" where
  "issue_step P msg =
     (case re_search P True issue_pattern msg of None \<Rightarrow> msg
      | Some (pre, m) \<Rightarrow>
          (case group m 1 of None \<Rightarrow> msg
           | Some issue_num \<Rightarrow>
               if \<not> sublist (asc ''(#'' @ issue_num @ asc '')'') msg
               then msg @ asc '' (#'' @ issue_num @ asc '')''
               else msg))"

definition first_line :: "str \<Rightarrow> str" where
  \<comment> \<open>\<open>message.split('\n')[0]\<close>\<close>
  "first_line s = hd (split_on newline s)"

definition format_commit_message :: "platform \<Rightarrow> commit \<Rightarrow> str \<Rightarrow> str" where
  "format_commit_message P c author =
     (let msg = strip P (first_line (message c));
          emoji_code = get_emoji_for_commit P msg;
          msg = strip_leading_emoji P msg;
          package_name = extract_package_name P msg;
          msg = capitalize_step P msg;
          msg = quote_package_step P package_name msg;
          msg = issue_step P msg
      in emoji_code @ asc '' '' @ msg @ asc '' by @'' @ author)"

subsection \<open>categorize_commit\<close>

definition message_score :: "platform \<Rightarrow> regex list \<Rightarrow> str \<Rightarrow> nat \<Rightarrow> nat" where
  \<comment> \<open>the loop over \<open>details['patterns']\<close>\<close>
  "message_score P pats msg_lower score =
     fold (\<lambda>pattern score. if re_found P True pattern msg_lower then score + 2 else score)
       pats score"

definition file_score :: "platform \<Rightarrow> regex list \<Rightarrow> str list \<Rightarrow> nat \<Rightarrow> nat" where
  \<comment> \<open>the nested loop over \<open>files_changed\<close> and \<open>details['file_patterns']\<close>\<close>
  "file_score P fpats files score =
     fold (\<lambda>file_path score.
             fold (\<lambda>pattern score. if re_found P True pattern file_path then score + 1 else score)
               fpats score)
       files score"

definition category_score :: "platform \<Rightarrow> category_rule \<Rightarrow> str \<Rightarrow> str list \<Rightarrow> nat" where
  "category_score P details msg_lower files =
     file_score P (file_patterns details) files
       (message_score P (patterns details) msg_lower 0)"

definition category_scores ::
  "platform \<Rightarrow> (str \<times> category_rule) list \<Rightarrow> str \<Rightarrow> str list \<Rightarrow> (str \<times> nat) list" where
  \<comment> \<open>the dictionary \<open>category_scores\<close>, in insertion order: only positive scores are stored\<close>
  "category_scores P cats msg_lower files =
     filter (\<lambda>(category, score). score > 0)
       (map (\<lambda>(category, details). (category, category_score P details msg_lower files)) cats)"

fun max_by_score :: "(str \<times> nat) \<Rightarrow> (str \<times> nat) list \<Rightarrow> (str \<times> nat)" where
  \<comment> \<open>\<open>max(d, key=d.get)\<close>: the first of the greatest in iteration order\<close>
  "max_by_score best [] = best"
| "max_by_score best (x # xs) = max_by_score (if snd x > snd best then x else best) xs"

definition categorize_commit_in ::
  "(str \<times> category_rule) list \<Rightarrow> platform \<Rightarrow> str \<Rightarrow> str list \<Rightarrow> str" where
  "categorize_commit_in cats P commit_msg files_changed =
     (case category_scores P cats (py_lower P commit_msg) files_changed of
        [] \<Rightarrow> asc ''other''
      | first # rest \<Rightarrow>
          (let best = max_by_score first rest in
           if snd best < 2 \<and> asc ''other'' \<in> set (map fst cats) then asc ''other''
           else fst best))"

definition categorize_commit :: "platform \<Rightarrow> str \<Rightarrow> str list \<Rightarrow> str" where
  "categorize_commit = categorize_commit_in CATEGORIES"

subsection \<open>A concrete platform\<close>

definition ascii_platform :: platform where
  \<comment> \<open>tables that know nothing beyond ASCII; the examples below are pure ASCII\<close>
  "ascii_platform = \<lparr>uc_space = (\<lambda>c. False), uc_alnum = (\<lambda>c. False), uc_digit = (\<lambda>c. None),
     uc_isupper = (\<lambda>c. False), uc_upper = (\<lambda>c. [c]), uc_lower = (\<lambda>s. s),
     uc_ieq = (\<lambda>a b. False), emoji_list = (\<lambda>s. []), md5_hexdigest = (\<lambda>s. s),
     datetime_str = (\<lambda>t. []), pad_year = False\<rparr>"

subsection \<open>get_commit_hash and get_recent_commits\<close>

definition get_commit_hash :: "platform \<Rightarrow> commit_data \<Rightarrow> str" where
  \<comment> \<open>the MD5 of \<open>f"{sha}:{author}:{date}"\<close>\<close>
  "get_commit_hash P d =
     md5_hexdigest P (cd_sha d @ asc '':'' @ cd_author d @ asc '':'' @ datetime_str P (cd_date d))"

definition resolve_author :: "commit \<Rightarrow> str" where
  "resolve_author c =
     (if author_name c = asc ''GitHub Actions''
      then (if committer_name c \<noteq> asc ''GitHub Actions'' then committer_name c
            else asc ''SuperKali'')
      else author_name c)"

definition make_commit_data :: "platform \<Rightarrow> str \<Rightarrow> commit \<Rightarrow> commit_data" where
  "make_commit_data P repo_name c =
     (let author = resolve_author c; files_changed = changed_files c in
      \<lparr>cd_sha = hexsha c, cd_message = message c, cd_author = author,
       cd_date = committed_date c, cd_files = files_changed,
       cd_formatted = format_commit_message P c author,
       cd_category = categorize_commit P (message c) files_changed,
       cd_repo = repo_name\<rparr>)"

fun harvest ::
  "platform \<Rightarrow> filter_config \<Rightarrow> str \<Rightarrow> int \<Rightarrow> commit list \<Rightarrow> commit_data list \<Rightarrow> str list
     \<Rightarrow> commit_data list" where
  \<comment> \<open>the loop over \<open>repo.iter_commits(all=True)\<close>, with the lists \<open>commits\<close> and
      \<open>seen_hashes\<close> it updates\<close>
  "harvest P cfg repo_name since_date [] commits seen_hashes = commits"
| "harvest P cfg repo_name since_date (c # rest) commits seen_hashes =
     (if committed_date c \<le> since_date then commits
      else if should_skip_commit P cfg c
      then harvest P cfg repo_name since_date rest commits seen_hashes
      else (let commit_data = make_commit_data P repo_name c;
                commit_hash = get_commit_hash P commit_data in
            if commit_hash \<notin> set seen_hashes
            then harvest P cfg repo_name since_date rest (commits @ [commit_data])
                   (commit_hash # seen_hashes)
            else harvest P cfg repo_name since_date rest commits seen_hashes))"

record repository =
  repo_name :: str
  history :: "commit list"   \<comment> \<open>\<open>repo.iter_commits(all=True)\<close>, newest first\<close>

definition get_recent_commits ::
  "platform \<Rightarrow> filter_config \<Rightarrow> repository option \<Rightarrow> int \<Rightarrow> commit_data list" where
  \<comment> \<open>\<open>None\<close> is a path that \<open>git.Repo\<close> cannot open: the handler returns the empty list\<close>
  "get_recent_commits P cfg repo since_date =
     (case repo of None \<Rightarrow> []
      | Some r \<Rightarrow> harvest P cfg (repo_name r) since_date (history r) [] [])"

definition sort_commits :: "commit_data list \<Rightarrow> commit_data list" where
  \<comment> \<open>\<open>sorted(commits, key=date, reverse=True)\<close>: stable, newest first\<close>
  "sort_commits commits = sort_key (\<lambda>x. - cd_date x) commits"

subsection \<open>generate_changelog_entry\<close>

fun add_to_category :: "str \<Rightarrow> str \<Rightarrow> (str \<times> str list) list \<Rightarrow> (str \<times> str list) list" where
  \<comment> \<open>the dictionary \<open>categorized_commits\<close> as an association list in insertion order\<close>
  "add_to_category category formatted [] = [(category, [formatted])]"
| "add_to_category category formatted ((k, v) # m) =
     (if k = category then (k, v @ [formatted]) # m
      else (k, v) # add_to_category category formatted m)"

definition categorize_all :: "commit_data list \<Rightarrow> (str \<times> str list) list" where
  "categorize_all all_commits =
     foldl (\<lambda>m c. add_to_category (cd_category c) (cd_formatted c) m) [] all_commits"

definition commits_of :: "(str \<times> str list) list \<Rightarrow> str \<Rightarrow> str list" where
  \<comment> \<open>\<open>categorized_commits.get(category_key, [])\<close>\<close>
  "commits_of categorized_commits category_key =
     (case map_of categorized_commits category_key of None \<Rightarrow> [] | Some commits \<Rightarrow> commits)"

fun decimal :: "nat \<Rightarrow> str" where
  "decimal n = (if n < 10 then [48 + n] else decimal (n div 10) @ [48 + n mod 10])"

definition category_lines :: "(str \<times> str list) list \<Rightarrow> (str \<times> category_rule) \<Rightarrow> str list" where
  "category_lines categorized_commits entry =
     (let commits = commits_of categorized_commits (fst entry) in
      if commits \<noteq> []
      then [asc ''### '' @ name (snd entry) @ [newline]]
             @ map (\<lambda>commit. asc ''- '' @ commit) commits @ [[]]
      else [])"

definition generate_changelog_entry ::
  "platform \<Rightarrow> str option \<Rightarrow> (str \<times> str list) list \<Rightarrow> str \<Rightarrow> str list option" where
  "generate_changelog_entry P stats_env categorized_commits release_date =
     (let sorted_categories = sort_key (\<lambda>x. priority (snd x)) CATEGORIES;
          lines = [[newline] @ asc ''## ['' @ release_date @ asc '']'' @ [newline]]
                    @ concat (map (category_lines categorized_commits) sorted_categories);
          has_content = list_ex (\<lambda>x. commits_of categorized_commits (fst x) \<noteq> []) sorted_categories
      in if \<not> has_content then None
         else (let lines =
                 (if py_lower P (case stats_env of None \<Rightarrow> asc ''false'' | Some v \<Rightarrow> v)
                       = asc ''true''
                  then lines @ [[newline] @ asc ''**Total changes:** ''
                          @ decimal (sum_list (map (\<lambda>x. length (snd x)) categorized_commits))
                          @ asc '' commits'' @ [newline]]
                  else lines)
               in Some (lines @ [asc ''---'' @ [newline]])))"

subsection \<open>update_release_date\<close>

definition strptime_pattern :: regex where
  \<comment> \<open>the pattern the \<open>datetime\<close> module builds for \<open>'%Y-%m-%d'\<close>:
      \<open>(\d\d\d\d)-(1[0-2]|0[1-9]|[1-9])-(3[0-1]|[1-2]\d|0[1-9]|[1-9]| [1-9])\<close>\<close>
  "strptime_pattern =
     seqs [Grp 1 (seqs [Digit, Digit, Digit, Digit]), lit ''-'',
           Grp 2 (alts [Seq (lit ''1'') (Range 48 50), Seq (lit ''0'') (Range 49 57),
                        Range 49 57]),
           lit ''-'',
           Grp 3 (alts [Seq (lit ''3'') (Range 48 49), Seq (Range 49 50) Digit,
                        Seq (lit ''0'') (Range 49 57), Range 49 57,
                        Seq (lit '' '') (Range 49 57)])]"

definition int_of_digits :: "platform \<Rightarrow> str \<Rightarrow> nat" where
  \<comment> \<open>\<open>int(s)\<close> for a run of decimal digits, after \<open>int\<close> has dropped surrounding blanks\<close>
  "int_of_digits P s = foldl (\<lambda>a c. 10 * a + digit_value P c) 0 (filter (\<lambda>c. c \<noteq> 32) s)"

definition leap_year :: "nat \<Rightarrow> bool" where
  "leap_year y = (y mod 4 = 0 \<and> (y mod 100 \<noteq> 0 \<or> y mod 400 = 0))"

definition days_in_month :: "nat \<Rightarrow> nat \<Rightarrow> nat" where
  "days_in_month y m =
     (if m = 2 then (if leap_year y then 29 else 28)
      else if m = 4 \<or> m = 6 \<or> m = 9 \<or> m = 11 then 30 else 31)"

definition strptime :: "platform \<Rightarrow> str \<Rightarrow> (nat \<times> nat \<times> nat) option" where
  \<comment> \<open>\<open>datetime.strptime(s, '%Y-%m-%d')\<close>: year, month and day, or \<open>None\<close> for ValueError
      (no match, unconverted data left, or no such date)\<close>
  "strptime P s =
     (case re_match P True strptime_pattern s of None \<Rightarrow> None
      | Some m \<Rightarrow>
          if fst (snd m) \<noteq> [] then None
          else (case (group m 1, group m 2, group m 3) of
                  (Some ys, Some ms, Some ds) \<Rightarrow>
                    (let y = int_of_digits P ys; mo = int_of_digits P ms; d = int_of_digits P ds in
                     if 1 \<le> y \<and> 1 \<le> mo \<and> mo \<le> 12 \<and> 1 \<le> d \<and> d \<le> days_in_month y mo
                     then Some (y, mo, d) else None)
                | _ \<Rightarrow> None))"

definition month_names :: "str list" where
  "month_names = [asc ''January'', asc ''February'', asc ''March'', asc ''April'', asc ''May'',
     asc ''June'', asc ''July'', asc ''August'', asc ''September'', asc ''October'',
     asc ''November'', asc ''December'']"

definition two_digits :: "nat \<Rightarrow> str" where
  "two_digits n = [48 + n div 10 mod 10, 48 + n mod 10]"

definition year_digits :: "platform \<Rightarrow> nat \<Rightarrow> str" where
  \<comment> \<open>\<open>%Y\<close>: four digits from 1000 on; below, padded or not with the C library\<close>
  "year_digits P y =
     (if y \<ge> 1000 \<or> \<not> pad_year P then decimal y
      else replicate (4 - length (decimal y)) 48 @ decimal y)"

definition strftime :: "platform \<Rightarrow> nat \<times> nat \<times> nat \<Rightarrow> str" where
  \<comment> \<open>\<open>strftime('%B %d, %Y')\<close> in the C locale\<close>
  "strftime P date =
     (case date of (y, m, d) \<Rightarrow>
        month_names ! (m - 1) @ asc '' '' @ two_digits d @ asc '', '' @ year_digits P y)"

definition date_pattern :: regex where
  \<comment> \<open>the calendar glyph U+1F4C5, then \<open> Release date: \*\*.*?\*\*\<close>\<close>
  "date_pattern = seqs [Lit 0x1F4C5, lit '' Release date: **'', Lazy Dot, lit ''**'']"

definition new_date_line :: "str \<Rightarrow> str" where
  "new_date_line formatted_date =
     [0x1F4C5] @ asc '' Release date: **'' @ formatted_date @ asc ''**''"

fun insert_date_line :: "platform \<Rightarrow> str \<Rightarrow> nat \<Rightarrow> str list \<Rightarrow> str list" where
  \<comment> \<open>the \<open>for i, line in enumerate(lines)\<close> loop with its \<open>else\<close> branch\<close>
  "insert_date_line P date_line i [] = [date_line]"
| "insert_date_line P date_line i (line # lines) =
     (if strip P line = [] \<and> i > 0 then date_line # line # lines
      else line # insert_date_line P date_line (Suc i) lines)"

definition update_release_date :: "platform \<Rightarrow> str \<Rightarrow> str \<Rightarrow> str option" where
  \<comment> \<open>\<open>None\<close> when \<open>strptime\<close> raises ValueError\<close>
  "update_release_date P content release_date =
     (case strptime P release_date of None \<Rightarrow> None
      | Some date_obj \<Rightarrow>
          (let date_line = new_date_line (strftime P date_obj) in
           if re_found P False date_pattern content
           then Some (re_sub P False date_pattern date_line [] content)
           else Some (join_with newline
                        (insert_date_line P date_line 0 (split_on newline content)))))"

subsection \<open>update_changelog\<close>

record env =
  RELEASE_DATE :: str
  CHANGELOG_STATS :: "str option"
  filter_cfg :: filter_config         \<comment> \<open>\<open>FILTER_CONFIG\<close> after \<open>load_config\<close>\<close>
  last_date :: int                    \<comment> \<open>what \<open>get_last_changelog_date\<close> returns\<close>
  main_repo :: "repository option"
  packages_repo :: "repository option" \<comment> \<open>\<open>None\<close>: not a git directory, or not readable\<close>
  changelog_file :: "str option"       \<comment> \<open>the text of CHANGELOG.md, \<open>None\<close> when missing\<close>

datatype outcome =
    Unchanged        \<comment> \<open>the function returns before it opens the file for writing\<close>
  | Written str      \<comment> \<open>the file is overwritten with this text\<close>
  | Failed           \<comment> \<open>ValueError escapes; the file is not written\<close>

definition split_once :: "str \<Rightarrow> str \<Rightarrow> (str \<times> str) option" where
  \<comment> \<open>\<open>s.split(sep, 1)\<close> when \<open>sep\<close> occurs in \<open>s\<close>\<close>
  "split_once sep s =
     (case find_sub sep s of None \<Rightarrow> None
      | Some i \<Rightarrow> Some (take i s, drop (i + length sep) s))"

definition splice_entry :: "str \<Rightarrow> str \<Rightarrow> str" where
  "splice_entry content entry =
     (case split_once (asc ''---'') content of
        Some (before, after) \<Rightarrow> before @ asc ''---'' @ [newline] @ entry @ after
      | None \<Rightarrow>
          (case find_sub [newline, newline] content of
             Some title_end \<Rightarrow>
               take (title_end + 2) content @ asc ''---'' @ [newline] @ entry
                 @ drop (title_end + 2) content
           | None \<Rightarrow> content @ [newline] @ asc ''---'' @ [newline] @ entry))"

definition all_commits_of :: "platform \<Rightarrow> env \<Rightarrow> commit_data list" where
  "all_commits_of P e =
     get_recent_commits P (filter_cfg e) (main_repo e) (last_date e)
       @ get_recent_commits P (filter_cfg e) (packages_repo e) (last_date e)"

definition update_changelog :: "platform \<Rightarrow> env \<Rightarrow> outcome" where
  "update_changelog P e =
     (let all_commits = all_commits_of P e in
      if all_commits = [] then Unchanged
      else
        (let all_commits = sort_commits all_commits;
             categorized_commits = categorize_all all_commits;
             content = (case changelog_file e of Some text \<Rightarrow> text
                        | None \<Rightarrow> asc ''# Changelog'' @ [newline, newline])
         in if sublist (asc ''## ['' @ RELEASE_DATE e @ asc '']'') content then Unchanged
            else
              (let content =
                 (case generate_changelog_entry P (CHANGELOG_STATS e) categorized_commits
                         (RELEASE_DATE e) of
                    Some new_entry \<Rightarrow> splice_entry content (concat new_entry)
                  | None \<Rightarrow> content)
               in case update_release_date P content (RELEASE_DATE e) of
                    None \<Rightarrow> Failed
                  | Some content \<Rightarrow> Written content)))"

subsection \<open>The score as the specification words it\<close>

definition spec_score :: "platform \<Rightarrow> category_rule \<Rightarrow> str \<Rightarrow> str list \<Rightarrow> nat" where
  \<comment> \<open>from the specification, not from the code: 2 for each message pattern that matches, and
      1 for every changed file path that matches any of the file patterns\<close>
  "spec_score P details msg_lower files =
     2 * length (filter (\<lambda>pattern. re_found P True pattern msg_lower) (patterns details))
     + length (filter (\<lambda>file_path. list_ex (\<lambda>pattern. re_found P True pattern file_path)
                         (file_patterns details)) files)"

subsection \<open>Inputs of the examples\<close>

definition login_fix :: commit where
  "login_fix = \<lparr>hexsha = asc ''3f2a9c1'', message = asc ''fix: resolve login crash'',
     author_name = asc ''alice'', committer_name = asc ''alice'', committed_date = 1704100000,
     parents = 1, changed_files = []\<rparr>"

definition scenario_env :: "repository option \<Rightarrow> repository option \<Rightarrow> str option \<Rightarrow> env" where
  "scenario_env main packages doc = \<lparr>RELEASE_DATE = asc ''2024-01-01'', CHANGELOG_STATS = None,
     filter_cfg = FILTER_CONFIG, last_date = 1701000000, main_repo = main,
     packages_repo = packages, changelog_file = doc\<rparr>"

subsection \<open>The commits that reach the fingerprint test\<close>

definition candidates ::
  "platform \<Rightarrow> filter_config \<Rightarrow> str \<Rightarrow> int \<Rightarrow> commit list \<Rightarrow> commit_data list" where
  \<comment> \<open>the records built by the loop of \<open>get_recent_commits\<close>, in order: the commits before the
      first one that is not newer than \<open>since_date\<close>, without those that are skipped\<close>
  "candidates P cfg rn since cs =
     map (make_commit_data P rn)
       (filter (\<lambda>c. \<not> should_skip_commit P cfg c)
          (takeWhile (\<lambda>c. \<not> committed_date c \<le> since) cs))"

(*DEFS-END*)

section \<open>Properties\<close>

lemmas eval_defs = asc_def lit_def lits_def re_found_def re_search_def re_match_def one_def
  chr_eq_def is_ascii_def ascii_upper_letter_def ascii_lower_letter_def ascii_digit_def
  ascii_tolower_def ascii_toupper_def py_isspace_def py_isword_def py_isdigit_def
  py_isupper_def py_upper1_def py_lower_def py_emoji_list_def category_score_def
  file_score_def message_score_def category_scores_def ascii_platform_def Plus_def Opt_def
  at_boundary_def advances_def capture_def group_def

subsection \<open>The classifier\<close>

lemma max_by_score_mem: "max_by_score b xs \<in> set (b # xs)"
  by (induction xs arbitrary: b) auto

lemma other_in_CATEGORIES: "asc ''other'' \<in> set (map fst CATEGORIES)"
  by (simp add: CATEGORIES_def)

lemma scores_package_makefile:
  "category_scores ascii_platform CATEGORIES (py_lower ascii_platform (asc ''''))
     [asc ''package/Makefile''] = [(asc ''packages'', 1), (asc ''build_ci'', 1)]"
  by (simp add: eval_defs CATEGORIES_def)

text \<open>
  Claim C6.  When every category scores less than 2 (this covers both the case where the
  greatest score is 1 and the case where no category scores above 0, since only positive
  scores are stored), \<open>categorize_commit\<close> returns the catch-all category \<open>other\<close>.
\<close>

theorem categorize_downgrade:
  assumes "\<forall>(category, score) \<in> set (category_scores P CATEGORIES (py_lower P msg) files). score < 2"
  shows "categorize_commit P msg files = asc ''other''"
proof (cases "category_scores P CATEGORIES (py_lower P msg) files")
  case Nil
  then show ?thesis by (simp add: categorize_commit_def categorize_commit_in_def)
next
  case (Cons first rest)
  have "max_by_score first rest \<in> set (category_scores P CATEGORIES (py_lower P msg) files)"
    using max_by_score_mem [of first rest] Cons by simp
  with assms have "snd (max_by_score first rest) < 2" by (auto simp: case_prod_beta)
  with Cons other_in_CATEGORIES show ?thesis
    by (simp add: categorize_commit_def categorize_commit_in_def Let_def)
qed

theorem categorize_downgrade_witness:
  "category_scores ascii_platform CATEGORIES (py_lower ascii_platform (asc ''''))
     [asc ''package/Makefile''] = [(asc ''packages'', 1), (asc ''build_ci'', 1)]
   \<and> categorize_commit ascii_platform (asc '''') [asc ''package/Makefile''] = asc ''other''"
  using categorize_downgrade [of ascii_platform "asc ''''" "[asc ''package/Makefile'']"]
  by (simp add: scores_package_makefile)

lemma message_score_eq:
  "message_score P pats m s = s + 2 * length (filter (\<lambda>p. re_found P True p m) pats)"
  unfolding message_score_def by (induction pats arbitrary: s) auto

lemma inner_file_score:
  "fold (\<lambda>pattern score. if re_found P True pattern f then score + 1 else score) fpats s
     = s + length (filter (\<lambda>p. re_found P True p f) fpats)"
  by (induction fpats arbitrary: s) auto

lemma file_score_eq:
  "file_score P fpats files s
     = s + length (filter (\<lambda>(f, p). re_found P True p f) (List.product files fpats))"
  unfolding file_score_def
  by (induction files arbitrary: s) (auto simp: inner_file_score filter_map o_def)

text \<open>
  Claim C3, as amended.  The score of a category is 2 for each of its message patterns found
  in the lower-cased message plus 1 for every pair of a changed file path and a file pattern
  of the category that matches it: a path that matches several file patterns of one category
  counts once per pattern.
\<close>

theorem category_score_pairs:
  "category_score P details msg_lower files =
     2 * length (filter (\<lambda>pattern. re_found P True pattern msg_lower) (patterns details))
     + length (filter (\<lambda>(file_path, pattern). re_found P True pattern file_path)
                 (List.product files (file_patterns details)))"
  by (simp add: category_score_def message_score_eq file_score_eq)

text \<open>
  Claim C3 as stated (at most 1 per file path) fails: the path \<open>README.md\<close> matches the two
  file patterns \<open>README\<close> and \<open>\.md$\<close> of the category \<open>documentation\<close>, so the code scores 2
  where the stated rule gives 1.
\<close>

theorem category_score_counterexample:
  "category_score ascii_platform (the (map_of CATEGORIES (asc ''documentation'')))
       (py_lower ascii_platform (asc ''tidy'')) [asc ''README.md'']
   \<noteq> spec_score ascii_platform (the (map_of CATEGORIES (asc ''documentation'')))
       (py_lower ascii_platform (asc ''tidy'')) [asc ''README.md'']"
  by (simp add: eval_defs CATEGORIES_def spec_score_def)

lemma max_by_score_keep:
  "\<forall>x \<in> set zs. snd x \<le> snd b \<Longrightarrow> max_by_score b zs = b"
  by (induction zs) auto

lemma max_by_score_later:
  "snd b < s \<Longrightarrow> \<forall>x \<in> set ys. snd x < s \<Longrightarrow> \<forall>x \<in> set zs. snd x \<le> s
     \<Longrightarrow> max_by_score b (ys @ (k, s) # zs) = (k, s)"
proof (induction ys arbitrary: b)
  case Nil
  then show ?case using max_by_score_keep [of zs "(k, s)"] by simp
next
  case (Cons y ys)
  then show ?case by simp
qed

lemma max_by_score_first_max:
  assumes "first # rest = ys @ (k, s) # zs"
    and "\<forall>x \<in> set ys. snd x < s" and "\<forall>x \<in> set zs. snd x \<le> s"
  shows "max_by_score first rest = (k, s)"
proof (cases ys)
  case Nil
  with assms show ?thesis using max_by_score_keep [of zs "(k, s)"] by simp
next
  case (Cons y ys')
  with assms show ?thesis using max_by_score_later [of y s ys' zs k] by simp
qed

lemma category_scores_append:
  "category_scores P (xs @ ys) m fs = category_scores P xs m fs @ category_scores P ys m fs"
  by (simp add: category_scores_def)

lemma category_scores_Cons:
  "category_scores P ((k, d) # ys) m fs =
     (if category_score P d m fs > 0 then [(k, category_score P d m fs)] else [])
       @ category_scores P ys m fs"
  by (simp add: category_scores_def)

lemma category_scores_bound:
  "\<forall>(c, d) \<in> set cats. category_score P d m fs < s
     \<Longrightarrow> \<forall>x \<in> set (category_scores P cats m fs). snd x < s"
  by (auto simp: category_scores_def)

lemma category_scores_bound_le:
  "\<forall>(c, d) \<in> set cats. category_score P d m fs \<le> s
     \<Longrightarrow> \<forall>x \<in> set (category_scores P cats m fs). snd x \<le> s"
  by (auto simp: category_scores_def)

lemma categorize_commit_in_first_max:
  assumes "cats = before @ (k, details) # after"
    and "2 \<le> category_score P details (py_lower P msg) files"
    and "\<forall>(c, d) \<in> set before. category_score P d (py_lower P msg) files
            < category_score P details (py_lower P msg) files"
    and "\<forall>(c, d) \<in> set after. category_score P d (py_lower P msg) files
            \<le> category_score P details (py_lower P msg) files"
  shows "categorize_commit_in cats P msg files = k"
proof -
  let ?s = "category_score P details (py_lower P msg) files"
  let ?ys = "category_scores P before (py_lower P msg) files"
  let ?zs = "category_scores P after (py_lower P msg) files"
  have sc: "category_scores P cats (py_lower P msg) files = ?ys @ (k, ?s) # ?zs"
    using assms(1,2) by (simp add: category_scores_append category_scores_Cons)
  have ys: "\<forall>x \<in> set ?ys. snd x < ?s" using assms(3) by (rule category_scores_bound)
  have zs: "\<forall>x \<in> set ?zs. snd x \<le> ?s" using assms(4) by (rule category_scores_bound_le)
  show ?thesis
  proof (cases "category_scores P cats (py_lower P msg) files")
    case Nil
    with sc show ?thesis by simp
  next
    case (Cons first rest)
    with sc have "first # rest = ?ys @ (k, ?s) # ?zs" by simp
    from max_by_score_first_max [OF this ys zs] Cons assms(2) show ?thesis
      by (simp add: categorize_commit_in_def)
  qed
qed

lemma category_score_priority:
  "category_score P (d\<lparr>priority := x\<rparr>) m fs = category_score P d m fs"
  by (simp add: category_score_def)

lemma category_scores_priority:
  "category_scores P (map (\<lambda>(c, d). (c, d\<lparr>priority := f c d\<rparr>)) cats) m fs
     = category_scores P cats m fs"
  by (induction cats) (auto simp: category_scores_def category_score_priority)

lemma categorize_commit_in_priority:
  "categorize_commit_in (map (\<lambda>(c, d). (c, d\<lparr>priority := f c d\<rparr>)) cats) P msg files
     = categorize_commit_in cats P msg files"
proof -
  have "map fst (map (\<lambda>(c, d). (c, d\<lparr>priority := f c d\<rparr>)) cats) = map fst cats"
    by (induction cats) auto
  then show ?thesis
    by (simp only: categorize_commit_in_def category_scores_priority)
qed

text \<open>
  Claim C5, as amended.  When the category at some position of the table scores at least 2,
  every category before it scores strictly less and every category after it scores at most as
  much (so it is the earliest of those that attain the greatest score), \<open>categorize_commit\<close>
  returns it.  The \<open>priority\<close> field plays no role: the result is the same for the table with
  any other priorities.
\<close>

theorem categorize_tie_break:
  assumes "CATEGORIES = before @ (k, details) # after"
    and "2 \<le> category_score P details (py_lower P msg) files"
    and "\<forall>(c, d) \<in> set before. category_score P d (py_lower P msg) files
            < category_score P details (py_lower P msg) files"
    and "\<forall>(c, d) \<in> set after. category_score P d (py_lower P msg) files
            \<le> category_score P details (py_lower P msg) files"
  shows "categorize_commit P msg files = k
         \<and> categorize_commit_in (map (\<lambda>(c, d). (c, d\<lparr>priority := f c d\<rparr>)) CATEGORIES)
               P msg files = k"
  using categorize_commit_in_first_max [OF assms]
  by (simp add: categorize_commit_def categorize_commit_in_priority)

lemma scores_fix_security:
  "category_scores ascii_platform CATEGORIES (py_lower ascii_platform (asc ''fix: security'')) []
     = [(asc ''security_critical'', 2), (asc ''bugfixes'', 2)]"
  by (simp add: eval_defs CATEGORIES_def)

theorem categorize_tie_break_witness:
  "category_scores ascii_platform CATEGORIES (py_lower ascii_platform (asc ''fix: security'')) []
     = [(asc ''security_critical'', 2), (asc ''bugfixes'', 2)]
   \<and> categorize_commit ascii_platform (asc ''fix: security'') [] = asc ''security_critical''
   \<and> categorize_commit_in (map (\<lambda>(c, d). (c, d\<lparr>priority := 0\<rparr>)) CATEGORIES)
        ascii_platform (asc ''fix: security'') [] = asc ''security_critical''"
  using categorize_tie_break [of "[]" "asc ''security_critical''"
      "snd (hd CATEGORIES)" "tl CATEGORIES" ascii_platform "asc ''fix: security''" "[]"
      "\<lambda>c d. 0"]
  by (simp add: scores_fix_security) (simp add: eval_defs CATEGORIES_def)

lemma categorize_package_makefile:
  "categorize_commit ascii_platform (asc '''') [asc ''package/Makefile''] = asc ''other''"
  using other_in_CATEGORIES
  by (simp add: categorize_commit_def categorize_commit_in_def scores_package_makefile)

text \<open>
  Claim C5 as stated (any positive greatest score) fails when the greatest score is 1: for the
  path \<open>package/Makefile\<close> the categories \<open>packages\<close> and \<open>build_ci\<close> both score 1, the
  greatest score, and the result is \<open>other\<close>, not the earlier of the two.
\<close>

theorem categorize_tie_counterexample:
  "category_scores ascii_platform CATEGORIES (py_lower ascii_platform (asc ''''))
     [asc ''package/Makefile''] = [(asc ''packages'', 1), (asc ''build_ci'', 1)]
   \<and> categorize_commit ascii_platform (asc '''') [asc ''package/Makefile''] \<noteq> asc ''packages''"
  by (simp add: scores_package_makefile categorize_package_makefile) (simp add: asc_def)

subsection \<open>The formatter\<close>

lemma strip_blank: "list_all (py_isspace P) s \<Longrightarrow> strip P s = []"
  by (auto simp: strip_def lstrip_def rstrip_def list_all_iff dest: set_dropWhileD)

lemma emoji_of_empty: "get_emoji_for_commit P [] = [0x1F6E0, 0xFE0F]"
  by (simp add: get_emoji_for_commit_def starts_with_emoji_def py_emoji_list_def py_lower_def
        EMOJI_MAP_def keyword_pattern_def re_found_def re_search_def at_boundary_def lits_def
        asc_def)

lemma format_of_empty:
  "strip P (first_line (message c)) = [] \<Longrightarrow>
     format_commit_message P c author = [0x1F6E0, 0xFE0F] @ asc ''  by @'' @ author"
  by (simp add: format_commit_message_def emoji_of_empty strip_leading_emoji_def
        starts_with_emoji_def py_emoji_list_def extract_package_name_def package_patterns_def
        re_search_def one_def at_boundary_def lits_def lit_def Plus_def Opt_def
        capitalize_step_def quote_package_step_def issue_step_def issue_pattern_def asc_def)

text \<open>
  Claim C10.  A commit whose first message line is empty or consists of white space only is
  formatted without an error (the capitalization is guarded on a non-empty message, which is
  the \<open>[]\<close> case of \<open>capitalize_step\<close>): the result is the fallback glyph U+1F6E0 U+FE0F, an
  empty message part between two blanks, and the author.
\<close>

theorem format_blank_message:
  assumes "list_all (py_isspace P) (first_line (message c))"
  shows "format_commit_message P c author = [0x1F6E0, 0xFE0F] @ asc ''  by @'' @ author"
  using assms by (simp add: strip_blank format_of_empty)

theorem format_blank_message_witness:
  "format_commit_message ascii_platform
     \<lparr>hexsha = asc ''abc'', message = asc ''   '' @ [newline] @ asc ''body'',
      author_name = asc ''bob'', committer_name = asc ''bob'', committed_date = 100,
      parents = 1, changed_files = []\<rparr> (asc ''bob'')
   = [0x1F6E0, 0xFE0F] @ asc ''  by @bob''"
  using format_blank_message [of ascii_platform
     "\<lparr>hexsha = asc ''abc'', message = asc ''   '' @ [newline] @ asc ''body'',
      author_name = asc ''bob'', committer_name = asc ''bob'', committed_date = 100,
      parents = 1, changed_files = []\<rparr>" "asc ''bob''"]
  by (simp add: first_line_def asc_def py_isspace_def is_ascii_def)

text \<open>
  Claim C8.  The pattern of the issue annotation is \<open>fixes?\<close>, which matches \<open>fixe\<close> and \<open>fixes\<close>
  but not \<open>fix\<close>: the message \<open>fix #42 leak\<close> is left without its \<open>(#42)\<close>, while \<open>fixes\<close>,
  \<open>close\<close> and \<open>resolve\<close> get it.
\<close>

theorem issue_step_fix_singular:
  "issue_step ascii_platform (asc ''fix #42 leak'') = asc ''fix #42 leak''
   \<and> issue_step ascii_platform (asc ''fixes #42 leak'') = asc ''fixes #42 leak (#42)''
   \<and> issue_step ascii_platform (asc ''close #42 leak'') = asc ''close #42 leak (#42)''
   \<and> issue_step ascii_platform (asc ''resolve #42 leak'') = asc ''resolve #42 leak (#42)''"
  by (simp add: issue_step_def issue_pattern_def eval_defs sublist_Cons_right)

subsection \<open>Matching literals and runs\<close>

lemma chr_eq_exact: "chr_eq P False c x = (c = x)"
  by (simp add: chr_eq_def)

lemma one_Nil: "one p (pre, [], g) = []"
  by (simp add: one_def)

lemma one_Cons: "one p (pre, x # xs, g) = (if p x then [(x # pre, xs, g)] else [])"
  by (simp add: one_def)

lemma seqs_Cons: "seqs (r # rs) = (if rs = [] then r else Seq r (seqs rs))"
  by (cases rs) auto

lemma rmatch_lits:
  "rmatch P False (lits l) (pre, s, g)
     = (if prefix l s then [(rev l @ pre, drop (length l) s, g)] else [])"
proof (induction l arbitrary: pre s)
  case Nil
  then show ?case by (simp add: lits_def)
next
  case (Cons a l)
  show ?case
  proof (cases "l = []")
    case True
    then show ?thesis
      by (cases s) (auto simp: lits_def one_Nil one_Cons chr_eq_exact)
  next
    case False
    have "rmatch P False (lits (a # l)) (pre, s, g)
            = concat (map (rmatch P False (lits l)) (one (chr_eq P False a) (pre, s, g)))"
      using False by (simp add: lits_def seqs_Cons)
    then show ?thesis
      using Cons.IH by (cases s) (auto simp: one_Nil one_Cons chr_eq_exact)
  qed
qed

lemma star_run_then_char:
  "length s \<le> n \<Longrightarrow> \<forall>x. p x \<longrightarrow> \<not> q x \<Longrightarrow>
     concat (map (one q) (star_iter (one p) n (pre, s, g)))
       = (if dropWhile p s \<noteq> [] \<and> q (hd (dropWhile p s))
          then [(hd (dropWhile p s) # rev (takeWhile p s) @ pre, tl (dropWhile p s), g)]
          else [])"
proof (induction n arbitrary: s pre)
  case 0
  then show ?case by (simp add: one_Nil)
next
  case (Suc n)
  show ?case
  proof (cases s)
    case Nil
    then show ?thesis by (simp add: one_Nil)
  next
    case (Cons x xs)
    show ?thesis
    proof (cases "p x")
      case True
      with Suc.prems have "\<not> q x" by auto
      moreover have "length xs \<le> n" using Suc.prems Cons by simp
      ultimately show ?thesis
        using True Suc.IH [of xs "x # pre"] Suc.prems(2) unfolding Cons
        by (simp add: one_Cons advances_def)
    next
      case False
      then show ?thesis unfolding Cons by (simp add: one_Cons advances_def)
    qed
  qed
qed

lemma conventional_prefix_match:
  "re_match P False conventional_prefix (c # cs) \<noteq> None
     \<longleftrightarrow> ascii_lower_letter c \<and> prefix [58] (dropWhile ascii_lower_letter cs)"
proof -
  have p: "rmatch P False (Range 97 122) = one ascii_lower_letter"
    by (rule ext) (simp add: ascii_lower_letter_def [abs_def])
  have q: "rmatch P False (Lit 58) = one (chr_eq P False 58)"
    by (rule ext) simp
  have n: "\<forall>x. ascii_lower_letter x \<longrightarrow> \<not> chr_eq P False 58 x"
    by (simp add: ascii_lower_letter_def chr_eq_exact)
  have m: "rmatch P False conventional_prefix ([], c # cs, [])
            = concat (map (rmatch P False (Lit 58))
                (concat (map (rmatch P False (Star (Range 97 122)))
                   (rmatch P False (Range 97 122) ([], c # cs, [])))))"
    by (simp add: conventional_prefix_def Plus_def lit_def lits_def asc_def)
  show ?thesis
  proof (cases "ascii_lower_letter c")
    case False
    then show ?thesis
      unfolding re_match_def m p by (simp add: one_Cons)
  next
    case True
    have "rmatch P False conventional_prefix ([], c # cs, [])
            = concat (map (one (chr_eq P False 58))
                (star_iter (one ascii_lower_letter) (length cs) ([c], cs, [])))"
      unfolding m p q using True by (simp add: one_Cons p)
    then have r: "rmatch P False conventional_prefix ([], c # cs, [])
         = (if dropWhile ascii_lower_letter cs \<noteq> []
               \<and> chr_eq P False 58 (hd (dropWhile ascii_lower_letter cs))
            then [(hd (dropWhile ascii_lower_letter cs)
                     # rev (takeWhile ascii_lower_letter cs) @ [c],
                   tl (dropWhile ascii_lower_letter cs), [])]
            else [])"
      using star_run_then_char [of cs "length cs" ascii_lower_letter "chr_eq P False 58" "[c]" "[]"]
        n by simp
    show ?thesis
    proof (cases "dropWhile ascii_lower_letter cs")
      case Nil
      with r True show ?thesis
        by (simp add: re_match_def del: dropWhile_eq_Nil_conv)
    next
      case (Cons x xs)
      with r True show ?thesis
        by (auto simp add: re_match_def chr_eq_exact simp del: dropWhile_eq_Nil_conv)
    qed
  qed
qed

text \<open>
  Claim C7.  The capitalization step on a non-empty message whose first character is not upper
  case (the guard of the code; a lower-case first character is such a character): when the
  message starts with a non-empty run of the letters \<open>a\<close> to \<open>z\<close> followed by a colon, which is
  what the pattern \<open>^[a-z]+:\<close> matches, it is returned as it is; otherwise the first character
  is replaced by its upper-case form and the rest is kept.
\<close>

theorem capitalize_first_character:
  assumes "\<not> py_isupper P c"
  shows "capitalize_step P (c # cs)
           = (if ascii_lower_letter c \<and> prefix [58] (dropWhile ascii_lower_letter cs)
              then c # cs else py_upper1 P c @ cs)"
  using assms conventional_prefix_match [of P c cs]
  by (auto simp: capitalize_step_def)

theorem capitalize_first_character_witness:
  "\<not> py_isupper ascii_platform 117
   \<and> capitalize_step ascii_platform (asc ''update readme'') = asc ''Update readme''
   \<and> capitalize_step ascii_platform (asc ''fix: resolve login crash'')
        = asc ''fix: resolve login crash''"
  using capitalize_first_character [of ascii_platform 117 "asc ''pdate readme''"]
    capitalize_first_character [of ascii_platform 102 "asc ''ix: resolve login crash''"]
  by (simp add: asc_def py_isupper_def py_upper1_def is_ascii_def ascii_upper_letter_def
        ascii_lower_letter_def ascii_toupper_def)

subsection \<open>The harvest of one repository\<close>

lemma harvest_acc:
  "harvest P cfg rn since cs acc seen = acc @ harvest P cfg rn since cs [] seen"
proof (induction cs arbitrary: acc seen)
  case Nil
  show ?case by simp
next
  case (Cons c rest)
  let ?d = "make_commit_data P rn c"
  let ?h = "get_commit_hash P ?d"
  have a: "harvest P cfg rn since rest (acc @ [?d]) (?h # seen)
             = acc @ ?d # harvest P cfg rn since rest [] (?h # seen)"
    using Cons.IH [of "acc @ [?d]" "?h # seen"] by simp
  have b: "harvest P cfg rn since rest [?d] (?h # seen)
             = ?d # harvest P cfg rn since rest [] (?h # seen)"
    using Cons.IH [of "[?d]" "?h # seen"] by simp
  have c: "harvest P cfg rn since rest acc seen = acc @ harvest P cfg rn since rest [] seen"
    by (rule Cons.IH)
  show ?case by (simp add: Let_def a b c)
qed

lemma harvest_Cons:
  "harvest P cfg rn since (c # rest) [] seen =
     (if committed_date c \<le> since then []
      else if should_skip_commit P cfg c then harvest P cfg rn since rest [] seen
      else if get_commit_hash P (make_commit_data P rn c) \<notin> set seen
      then make_commit_data P rn c
             # harvest P cfg rn since rest [] (get_commit_hash P (make_commit_data P rn c) # seen)
      else harvest P cfg rn since rest [] seen)"
  using harvest_acc [of P cfg rn since rest "[make_commit_data P rn c]"
      "get_commit_hash P (make_commit_data P rn c) # seen"]
  by (simp add: Let_def)

lemma harvest_fresh:
  "get_commit_hash P ` set (harvest P cfg rn since cs [] seen) \<inter> set seen = {}
   \<and> distinct (map (get_commit_hash P) (harvest P cfg rn since cs [] seen))"
proof (induction cs arbitrary: seen)
  case Nil
  show ?case by simp
next
  case (Cons c rest)
  show ?case
    using Cons.IH [of seen] Cons.IH [of "get_commit_hash P (make_commit_data P rn c) # seen"]
    by (auto simp add: harvest_Cons simp del: harvest.simps)
qed

lemma harvest_first:
  "d \<in> set (harvest P cfg rn since cs [] seen) \<Longrightarrow>
     find (\<lambda>x. get_commit_hash P x = get_commit_hash P d) (candidates P cfg rn since cs) = Some d"
proof (induction cs arbitrary: seen)
  case Nil
  then show ?case by simp
next
  case (Cons c rest)
  let ?d = "make_commit_data P rn c"
  let ?h = "get_commit_hash P ?d"
  show ?case
  proof (cases "committed_date c \<le> since")
    case True
    with Cons.prems show ?thesis by (simp add: harvest_Cons del: harvest.simps)
  next
    case late: False
    show ?thesis
    proof (cases "should_skip_commit P cfg c")
      case True
      with late Cons show ?thesis
        by (simp add: harvest_Cons candidates_def del: harvest.simps)
    next
      case keep: False
      have cands: "candidates P cfg rn since (c # rest) = ?d # candidates P cfg rn since rest"
        using late keep by (simp add: candidates_def)
      show ?thesis
      proof (cases "?h \<in> set seen")
        case True
        with late keep Cons.prems have in_rest: "d \<in> set (harvest P cfg rn since rest [] seen)"
          by (simp add: harvest_Cons del: harvest.simps)
        with harvest_fresh [of P cfg rn since rest seen] True
        have "get_commit_hash P d \<noteq> ?h" by auto
        with Cons.IH [OF in_rest] cands show ?thesis by simp
      next
        case False
        with late keep Cons.prems
        have "d = ?d \<or> d \<in> set (harvest P cfg rn since rest [] (?h # seen))"
          by (simp add: harvest_Cons del: harvest.simps)
        then show ?thesis
        proof
          assume "d = ?d"
          with cands show ?thesis by simp
        next
          assume in_rest: "d \<in> set (harvest P cfg rn since rest [] (?h # seen))"
          then have "get_commit_hash P d
              \<in> get_commit_hash P ` set (harvest P cfg rn since rest [] (?h # seen))"
            by (rule imageI)
          with harvest_fresh [of P cfg rn since rest "?h # seen"]
          have "get_commit_hash P d \<noteq> ?h" by auto
          with Cons.IH [OF in_rest] cands show ?thesis by simp
        qed
      qed
    qed
  qed
qed

lemma harvest_covers:
  "x \<in> set (candidates P cfg rn since cs) \<Longrightarrow>
     get_commit_hash P x \<in> set seen \<union> get_commit_hash P ` set (harvest P cfg rn since cs [] seen)"
proof (induction cs arbitrary: seen)
  case Nil
  then show ?case by (simp add: candidates_def)
next
  case (Cons c rest)
  let ?d = "make_commit_data P rn c"
  let ?h = "get_commit_hash P ?d"
  show ?case
  proof (cases "committed_date c \<le> since")
    case True
    with Cons.prems show ?thesis by (simp add: candidates_def)
  next
    case late: False
    show ?thesis
    proof (cases "should_skip_commit P cfg c")
      case True
      with late Cons.prems have "x \<in> set (candidates P cfg rn since rest)"
        by (simp add: candidates_def)
      from Cons.IH [OF this, of seen] late True show ?thesis
        by (simp add: harvest_Cons del: harvest.simps)
    next
      case keep: False
      with late Cons.prems have x: "x = ?d \<or> x \<in> set (candidates P cfg rn since rest)"
        by (simp add: candidates_def)
      show ?thesis
      proof (cases "?h \<in> set seen")
        case True
        from x show ?thesis
        proof
          assume "x = ?d"
          with True show ?thesis by simp
        next
          assume "x \<in> set (candidates P cfg rn since rest)"
          from Cons.IH [OF this, of seen] late keep True show ?thesis
            by (simp add: harvest_Cons del: harvest.simps)
        qed
      next
        case False
        from x show ?thesis
        proof
          assume "x = ?d"
          with late keep False show ?thesis by (simp add: harvest_Cons del: harvest.simps)
        next
          assume "x \<in> set (candidates P cfg rn since rest)"
          from Cons.IH [OF this, of "?h # seen"] late keep False show ?thesis
            by (auto simp add: harvest_Cons simp del: harvest.simps)
        qed
      qed
    qed
  qed
qed

lemma get_commit_hash_triple:
  "get_commit_hash P d
     = (\<lambda>(sha, author, date). md5_hexdigest P (sha @ asc '':'' @ author @ asc '':''
          @ datetime_str P date)) (cd_sha d, cd_author d, cd_date d)"
  by (simp add: get_commit_hash_def)

text \<open>
  Claim C2, as amended.  Within the harvest of one repository no two kept records have the same
  fingerprint, hence no two have the same identity hash, resolved author and timestamp; the
  record kept for a fingerprint is the first one of the loop that has it, and every
  fingerprint of the loop is kept.  The fingerprint is the MD5 of the three fields joined
  with a colon.
\<close>

theorem recent_commits_deduplicated:
  "let kept = get_recent_commits P cfg (Some r) since_date;
       seen = candidates P cfg (repo_name r) since_date (history r)
   in distinct (map (get_commit_hash P) kept)
      \<and> distinct (map (\<lambda>d. (cd_sha d, cd_author d, cd_date d)) kept)
      \<and> (\<forall>d \<in> set kept. find (\<lambda>x. get_commit_hash P x = get_commit_hash P d) seen = Some d)
      \<and> (\<forall>x \<in> set seen. get_commit_hash P x \<in> get_commit_hash P ` set kept)"
proof -
  let ?kept = "harvest P cfg (repo_name r) since_date (history r) [] []"
  have d: "distinct (map (get_commit_hash P) ?kept)"
    using harvest_fresh [of P cfg "repo_name r" since_date "history r" "[]"] by simp
  have eq: "map (get_commit_hash P) ?kept
          = map (\<lambda>(sha, author, date). md5_hexdigest P (sha @ asc '':'' @ author @ asc '':''
              @ datetime_str P date)) (map (\<lambda>d. (cd_sha d, cd_author d, cd_date d)) ?kept)"
    by (simp add: get_commit_hash_def)
  have "distinct (map (\<lambda>(sha, author, date). md5_hexdigest P (sha @ asc '':'' @ author
          @ asc '':'' @ datetime_str P date))
            (map (\<lambda>d. (cd_sha d, cd_author d, cd_date d)) ?kept))"
    using d unfolding eq .
  then have t: "distinct (map (\<lambda>d. (cd_sha d, cd_author d, cd_date d)) ?kept)"
    using distinct_map [of _ "map (\<lambda>d. (cd_sha d, cd_author d, cd_date d)) ?kept"] by blast
  have f: "\<forall>d \<in> set ?kept. find (\<lambda>x. get_commit_hash P x = get_commit_hash P d)
              (candidates P cfg (repo_name r) since_date (history r)) = Some d"
    using harvest_first [of _ P cfg "repo_name r" since_date "history r" "[]"] by blast
  have c: "\<forall>x \<in> set (candidates P cfg (repo_name r) since_date (history r)).
              get_commit_hash P x \<in> get_commit_hash P ` set ?kept"
    using harvest_covers [of _ P cfg "repo_name r" since_date "history r" "[]"] by simp
  have k: "get_recent_commits P cfg (Some r) since_date = ?kept"
    by (simp add: get_recent_commits_def)
  show ?thesis
    unfolding Let_def k using d t f c by (intro conjI)
qed

lemma login_fix_kept: "\<not> should_skip_commit ascii_platform FILTER_CONFIG login_fix"
  by (simp add: should_skip_commit_def FILTER_CONFIG_def login_fix_def eval_defs)

lemma login_fix_hash:
  "get_commit_hash ascii_platform (make_commit_data ascii_platform rn login_fix)
     = asc ''3f2a9c1:alice:''"
  by (simp add: get_commit_hash_def make_commit_data_def resolve_author_def login_fix_def
        ascii_platform_def asc_def Let_def)

lemma login_fix_date: "committed_date login_fix = 1704100000"
  by (simp add: login_fix_def)

theorem recent_commits_deduplicated_witness:
  "get_recent_commits ascii_platform FILTER_CONFIG
      (Some \<lparr>repo_name = asc ''BananaWRT'', history = [login_fix, login_fix]\<rparr>) 1701000000
     = [make_commit_data ascii_platform (asc ''BananaWRT'') login_fix]
   \<and> candidates ascii_platform FILTER_CONFIG (asc ''BananaWRT'') 1701000000
        [login_fix, login_fix]
     = [make_commit_data ascii_platform (asc ''BananaWRT'') login_fix,
        make_commit_data ascii_platform (asc ''BananaWRT'') login_fix]"
  using recent_commits_deduplicated [of ascii_platform FILTER_CONFIG
      "\<lparr>repo_name = asc ''BananaWRT'', history = [login_fix, login_fix]\<rparr>" 1701000000]
  by (simp add: get_recent_commits_def candidates_def Let_def login_fix_kept login_fix_hash
        login_fix_date)

text \<open>
  Claim C2 as stated (one record across the repositories) fails: \<open>seen_hashes\<close> is local to
  \<open>get_recent_commits\<close>, so the same commit found in the main repository and in the packages
  repository is kept twice in \<open>all_commits\<close>, with the same fingerprint.
\<close>

theorem cross_repository_counterexample:
  "all_commits_of ascii_platform
      (scenario_env (Some \<lparr>repo_name = asc ''BananaWRT'', history = [login_fix]\<rparr>)
         (Some \<lparr>repo_name = asc ''packages'', history = [login_fix]\<rparr>) None)
     = [make_commit_data ascii_platform (asc ''BananaWRT'') login_fix,
        make_commit_data ascii_platform (asc ''packages'') login_fix]
   \<and> get_commit_hash ascii_platform (make_commit_data ascii_platform (asc ''BananaWRT'') login_fix)
     = get_commit_hash ascii_platform (make_commit_data ascii_platform (asc ''packages'') login_fix)"
  by (simp add: all_commits_of_def scenario_env_def get_recent_commits_def Let_def
        login_fix_kept login_fix_hash login_fix_date)

end
